theory Spec2Isabelle
  imports Complex_Main "HOL-Library.Sublist"
begin

section \<open>JavaScript values used by the client\<close>

text \<open>
  A JavaScript number is a finite value, \<open>NaN\<close> or one of the two infinities. Finite
  values are kept exact (as rationals): the client only compares them, adds one to the
  attempt counter and caps a power of two, so no rounding of doubles is involved.
\<close>

datatype jsnum = Finite rat | NaN | PosInf | NegInf






text \<open>Truthiness of an optional string (\<open>None\<close> is \<open>undefined\<close>): defined and non-empty.\<close>

fun truthy :: "string option \<Rightarrow> bool" where
  "truthy None = False"
| "truthy (Some s) = (s \<noteq> [])"

text \<open>A template literal \<^verbatim>\<open>`${x}`\<close> prints an undefined value as the word \<open>undefined\<close>.\<close>

fun tpl :: "string option \<Rightarrow> string" where
  "tpl None = ''undefined''"
| "tpl (Some s) = s"

text \<open>Decimal digits of a natural number, as \<^verbatim>\<open>`HTTP ${res.status}`\<close> prints a status code.\<close>

definition digit_char :: "nat \<Rightarrow> char" where
  "digit_char n = ''0123456789'' ! (n mod 10)"

fun dec :: "nat \<Rightarrow> string" where
  "dec n = (if n < 10 then [digit_char n] else dec (n div 10) @ [digit_char n])"

section \<open>Requests, responses, errors and the observable trace\<close>

datatype http_method = GET | POST

text \<open>The target and the \<open>init\<close> object handed to \<open>fetch\<close>.\<close>

record request =
  url :: string
  init_method :: http_method
  init_redirect_manual :: bool
  init_headers :: "(string \<times> string) list"

text \<open>
  A response: status line, headers (names in lower case, as \<open>Headers.get\<close> matches them)
  and the JSON body. \<open>json = None\<close> stands for a body that cannot be read as an object
  (\<open>response.json()\<close> rejects, or yields \<open>null\<close>, so that reading a field throws);
  otherwise the body is an object whose string-valued fields are listed.
\<close>

record response =
  status :: nat
  statusText :: string
  headers :: "(string \<times> string) list"
  json :: "(string \<times> string) list option"

definition headers_get :: "response \<Rightarrow> string \<Rightarrow> string option" where
  "headers_get res name = map_of (headers res) name"

text \<open>
  Thrown values. \<open>Error msg resp\<close> is \<^verbatim>\<open>new Error(msg)\<close> with an optional \<open>response\<close>
  property; \<open>ThrownUndefined\<close> is \<^verbatim>\<open>throw lastError\<close> when no attempt was made.
\<close>

datatype error =
    Error string "response option"
  | TypeError string
  | SyntaxError string
  | AbortError string
  | ThrownUndefined

fun message :: "error \<Rightarrow> string" where
  "message (Error m r) = m"
| "message (TypeError m) = m"
| "message (SyntaxError m) = m"
| "message (AbortError m) = m"
| "message ThrownUndefined = ''''"

text \<open>\<^verbatim>\<open>err?.response?.status\<close>\<close>

fun response_status :: "error \<Rightarrow> nat option" where
  "response_status (Error m (Some r)) = Some (status r)"
| "response_status e = None"

text \<open>What one call of the global \<open>fetch\<close> does: it rejects or it yields a response.\<close>

datatype fetch_outcome = Rejected error | Responded response

text \<open>The argument of the retry observer, \<^verbatim>\<open>{ attempt, status, error }\<close>.\<close>

record retry_info =
  info_attempt :: nat
  info_status :: "nat option"
  info_error :: string

text \<open>
  Everything the client does to the outside world, in order: the requests it sends, the
  calls of the retry observer and the back-off delays (milliseconds).
\<close>

datatype event = Fetch request | OnRetryAttempt retry_info | Delay nat

fun is_fetch :: "event \<Rightarrow> bool" where
  "is_fetch (Fetch r) = True"
| "is_fetch e = False"

definition fetch_count :: "event list \<Rightarrow> nat" where
  "fetch_count tr = length (filter is_fetch tr)"

text \<open>
  The environment of one run. \<open>fetch n req\<close> is the outcome of the \<open>n\<close>-th call of the
  global \<open>fetch\<close> (counting from 0) when it is given \<open>req\<close>; a timeout shows as a rejection
  with an \<open>AbortError\<close>. \<open>process_env\<close> is \<open>process.env\<close>. The two conversions are the
  language's own \<open>Number(string)\<close> and \<open>String(number)\<close>, taken as parameters.
\<close>

record platform =
  fetch :: "nat \<Rightarrow> request \<Rightarrow> fetch_outcome"
  process_env :: "string \<Rightarrow> string option"
  Number_of_string :: "string \<Rightarrow> jsnum"
  String_of_number :: "jsnum \<Rightarrow> string"

text \<open>
  An asynchronous computation: it extends the trace and either throws or returns.
\<close>

type_synonym 'a async = "event list \<Rightarrow> (error + 'a) \<times> event list"

definition resolve :: "'a \<Rightarrow> 'a async" where
  "resolve x = (\<lambda>tr. (Inr x, tr))"

definition throw :: "error \<Rightarrow> 'a async" where
  "throw e = (\<lambda>tr. (Inl e, tr))"

definition await :: "'a async \<Rightarrow> ('a \<Rightarrow> 'b async) \<Rightarrow> 'b async" where
  "await m f = (\<lambda>tr. case m tr of (Inl e, tr') \<Rightarrow> (Inl e, tr') | (Inr x, tr') \<Rightarrow> f x tr')"

definition try_catch :: "'a async \<Rightarrow> (error \<Rightarrow> 'a async) \<Rightarrow> 'a async" where
  "try_catch m h = (\<lambda>tr. case m tr of (Inl e, tr') \<Rightarrow> h e tr' | (Inr x, tr') \<Rightarrow> (Inr x, tr'))"

section \<open>HTTP options and the retrying transport\<close>


text \<open>
  The validated options. The observer is a function that may throw (\<open>Some e\<close>) when called.
\<close>

record http_options =
  timeoutMs :: rat
  userAgent :: string
  retries :: rat
  onRetryAttempt :: "(retry_info \<Rightarrow> error option) option"


text \<open>\<open>doFetch\<close>: one call of \<open>fetch\<close>, recorded in the trace.\<close>

definition doFetch :: "platform \<Rightarrow> request \<Rightarrow> response async" where
  "doFetch P req =
     (\<lambda>tr. (case fetch P (fetch_count tr) req of Rejected e \<Rightarrow> Inl e | Responded res \<Rightarrow> Inr res,
            tr @ [Fetch req]))"

text \<open>The body of the \<open>try\<close> block: a response with status 429 or at least 500 is thrown.\<close>

definition attempt_once :: "platform \<Rightarrow> request \<Rightarrow> response async" where
  "attempt_once P req =
     await (doFetch P req) (\<lambda>res.
       if status res \<ge> 500 \<or> status res = 429
       then throw (Error (''HTTP '' @ dec (status res)) (Some res))
       else resolve res)"

text \<open>The observer call inside its own \<open>try { ... } catch { }\<close>.\<close>

definition call_observer :: "(retry_info \<Rightarrow> error option) \<Rightarrow> retry_info \<Rightarrow> unit async" where
  "call_observer cb info =
     try_catch (\<lambda>tr. (case cb info of Some e \<Rightarrow> Inl e | None \<Rightarrow> Inr (), tr @ [OnRetryAttempt info]))
               (\<lambda>e. resolve ())"

definition backoffMs :: "nat \<Rightarrow> nat" where
  "backoffMs attempt = min (1000 * 2 ^ (attempt - 1)) 4000"

definition sleep :: "nat \<Rightarrow> unit async" where
  "sleep ms = (\<lambda>tr. (Inr (), tr @ [Delay ms]))"

text \<open>
  The \<open>while (attempt <= httpOpts.retries)\<close> loop of \<open>requestWithRetry\<close>, entered with the
  current values of \<open>attempt\<close> and \<open>lastError\<close>.
\<close>

function requestWithRetry_loop ::
  "platform \<Rightarrow> request \<Rightarrow> http_options \<Rightarrow> nat \<Rightarrow> error option \<Rightarrow> response async" where
  "requestWithRetry_loop P req httpOpts attempt lastError tr =
     (if of_nat attempt \<le> retries httpOpts then
        (case attempt_once P req tr of
           (Inr res, tr1) \<Rightarrow> (Inr res, tr1)
         | (Inl err, tr1) \<Rightarrow>
             if of_nat (attempt + 1) > retries httpOpts then (Inl err, tr1)
             else
               (case (case onRetryAttempt httpOpts of
                        None \<Rightarrow> resolve ()
                      | Some cb \<Rightarrow>
                          call_observer cb \<lparr> info_attempt = attempt + 1,
                                              info_status = response_status err,
                                              info_error = message err \<rparr>) tr1 of
                  (Inl e, tr2) \<Rightarrow> (Inl e, tr2)
                | (Inr u, tr2) \<Rightarrow>
                    (case sleep (backoffMs (attempt + 1)) tr2 of
                       (Inl e, tr3) \<Rightarrow> (Inl e, tr3)
                     | (Inr u', tr3) \<Rightarrow>
                         requestWithRetry_loop P req httpOpts (attempt + 1) (Some err) tr3)))
      else (Inl (case lastError of Some e \<Rightarrow> e | None \<Rightarrow> ThrownUndefined), tr))"
  by pat_completeness auto
termination
proof (relation "measure (\<lambda>(P, req, httpOpts, attempt, lastError, tr). nat \<lfloor>retries httpOpts\<rfloor> - attempt)")
  show "wf (measure (\<lambda>(P, req, httpOpts, attempt, lastError, tr). nat \<lfloor>retries httpOpts\<rfloor> - attempt))"
    by simp
next
  fix P :: platform and req :: request and httpOpts :: http_options and attempt :: nat
    and lastError :: "error option" and tr :: "event list"
  assume "\<not> rat_of_nat (attempt + 1) > retries httpOpts"
  then have "rat_of_nat (attempt + 1) \<le> retries httpOpts" by simp
  then have "int (attempt + 1) \<le> \<lfloor>retries httpOpts\<rfloor>" by (simp add: le_floor_iff)
  then have "attempt < nat \<lfloor>retries httpOpts\<rfloor>" by linarith
  then show "((P, req, httpOpts, attempt + 1, Some lastError', tr'), (P, req, httpOpts, attempt, lastError, tr))
      \<in> measure (\<lambda>(P, req, httpOpts, attempt, lastError, tr). nat \<lfloor>retries httpOpts\<rfloor> - attempt)"
    for lastError' tr'
    by simp
qed

definition requestWithRetry :: "platform \<Rightarrow> request \<Rightarrow> http_options \<Rightarrow> response async" where
  "requestWithRetry P req httpOpts = requestWithRetry_loop P req httpOpts 0 None"

section \<open>Built-in string functions\<close>

text \<open>
  Strings are byte strings (the UTF-8 form of the JavaScript string).
  \<open>encodeURIComponent\<close> keeps the unreserved characters and writes every other byte
  as \<open>%XX\<close> with upper-case hexadecimal digits.
\<close>

definition uri_unreserved :: "char \<Rightarrow> bool" where
  "uri_unreserved c =
     (c \<in> set ''ABCDEFGHIJKLMNOPQRSTUVWXYZabcdefghijklmnopqrstuvwxyz0123456789-_.!~*()''
      \<or> c = CHR 0x27)"

definition hex_digit :: "nat \<Rightarrow> char" where
  "hex_digit n = ''0123456789ABCDEF'' ! (n mod 16)"

definition encodeURIComponent :: "string \<Rightarrow> string" where
  "encodeURIComponent s =
     concat (map (\<lambda>c. if uri_unreserved c then [c]
                       else [CHR ''%'', hex_digit (of_char c div 16), hex_digit (of_char c mod 16)]) s)"


definition is_digit :: "char \<Rightarrow> bool" where
  "is_digit c = (c \<in> set ''0123456789'')"

definition digits_value :: "string \<Rightarrow> int" where
  "digits_value ds = foldl (\<lambda>a c. 10 * a + (int (of_char c) - 48)) 0 ds"


text \<open>
  \<^verbatim>\<open>url.parse(location).query\<close>: the text between the first \<open>?\<close> and the fragment, or
  \<open>null\<close> when the URL has no \<open>?\<close>.
\<close>

definition url_parse_query :: "string \<Rightarrow> string option" where
  "url_parse_query location =
     (let s = takeWhile (\<lambda>c. c \<noteq> CHR ''#'') location
      in if CHR ''?'' \<in> set s then Some (tl (dropWhile (\<lambda>c. c \<noteq> CHR ''?'') s)) else None)"

fun split_on :: "char \<Rightarrow> string \<Rightarrow> string list" where
  "split_on c [] = [[]]"
| "split_on c (x # xs) =
     (if x = c then [] # split_on c xs
      else (case split_on c xs of [] \<Rightarrow> [[x]] | w # ws \<Rightarrow> (x # w) # ws))"

definition hex_value :: "char \<Rightarrow> nat option" where
  "hex_value c =
     (if is_digit c then Some (of_char c - 48)
      else if c \<in> set ''abcdef'' then Some (of_char c - 87)
      else if c \<in> set ''ABCDEF'' then Some (of_char c - 55)
      else None)"

text \<open>\<open>querystring.unescape\<close>, byte by byte: \<open>+\<close> is a space, \<open>%XX\<close> is the byte \<open>XX\<close>.\<close>

fun qs_unescape :: "string \<Rightarrow> string" where
  "qs_unescape [] = []"
| "qs_unescape (c # cs) =
     (if c = CHR ''+'' then CHR '' '' # qs_unescape cs
      else if c = CHR ''%'' then
        (case cs of
           h1 # h2 # r \<Rightarrow>
             (case (hex_value h1, hex_value h2) of
                (Some a, Some b) \<Rightarrow> char_of (16 * a + b) # qs_unescape r
              | _ \<Rightarrow> c # qs_unescape cs)
         | _ \<Rightarrow> c # qs_unescape cs)
      else c # qs_unescape cs)"

definition intercalate :: "string \<Rightarrow> string list \<Rightarrow> string" where
  "intercalate sep xs = (case xs of [] \<Rightarrow> [] | y # ys \<Rightarrow> y @ concat (map (\<lambda>z. sep @ z) ys))"

text \<open>
  \<^verbatim>\<open>qs.parse(query).code\<close>: the value of the key \<open>code\<close>; \<open>None\<close> (undefined) when the
  query is \<open>null\<close> or has no such key; a repeated key gives an array, which a template
  literal prints joined by commas.
\<close>

definition qs_parse_code :: "string option \<Rightarrow> string option" where
  "qs_parse_code query =
     (case query of
        None \<Rightarrow> None
      | Some q \<Rightarrow>
          (let vals = concat (map (\<lambda>part.
                        let k = takeWhile (\<lambda>c. c \<noteq> CHR ''='') part;
                            v = drop (Suc (length k)) part
                        in if qs_unescape k = ''code'' then [qs_unescape v] else [])
                      (split_on CHR ''&'' q))
           in if vals = [] then None else Some (intercalate '','' vals)))"

section \<open>Protocol operations\<close>

definition get_init :: "string \<Rightarrow> request" where
  "get_init urlStr = \<lparr> url = urlStr, init_method = GET, init_redirect_manual = False, init_headers = [] \<rparr>"

definition post_init :: "string \<Rightarrow> request" where
  "post_init urlStr = \<lparr> url = urlStr, init_method = POST, init_redirect_manual = False, init_headers = [] \<rparr>"

text \<open>\<^verbatim>\<open>await response.json()\<close>\<close>

definition response_json :: "response \<Rightarrow> (string \<times> string) list async" where
  "response_json res =
     (case json res of None \<Rightarrow> throw (SyntaxError ''Unexpected token in JSON'') | Some body \<Rightarrow> resolve body)"

subsection \<open>loginInfo (discover)\<close>

definition loginInfo_url :: "string \<Rightarrow> string" where
  "loginInfo_url username =
     ''https://rest.bullhornstaffing.com/rest-services/loginInfo?username='' @ encodeURIComponent username"

text \<open>The result is the pair \<^verbatim>\<open>{ oauthUrl, restUrl }\<close> (the diagnostic \<open>raw\<close> field is left out).\<close>

definition loginInfo :: "platform \<Rightarrow> http_options \<Rightarrow> string option \<Rightarrow> (string option \<times> string option) async" where
  "loginInfo P httpOpts username =
     (case username of
        None \<Rightarrow> throw (Error ''username must be a non-empty string'' None)
      | Some u \<Rightarrow>
          if u = [] then throw (Error ''username must be a non-empty string'' None)
          else
            await (requestWithRetry P (get_init (loginInfo_url u)) httpOpts) (\<lambda>response.
            await (response_json response) (\<lambda>body.
            resolve (map_of body ''oauthUrl'', map_of body ''restUrl''))))"

subsection \<open>step0 (refresh exchange)\<close>

definition step0_url :: "string option \<Rightarrow> string option \<Rightarrow> string option \<Rightarrow> string option \<Rightarrow> string" where
  "step0_url oauthUrl refreshToken clientId clientSecret =
     tpl oauthUrl @ ''/token?grant_type=refresh_token&refresh_token='' @ tpl refreshToken
       @ ''&client_id='' @ tpl clientId @ ''&client_secret='' @ tpl clientSecret"

text \<open>
  \<^verbatim>\<open>{ ok: true, accessToken, refreshToken }\<close> or \<^verbatim>\<open>{ ok: false, status, error }\<close>.
\<close>

datatype refresh_result =
    RefreshOk "string option" "string option"
  | RefreshFailed "nat option" string

definition step0 ::
  "platform \<Rightarrow> http_options \<Rightarrow> string option \<Rightarrow> string option \<Rightarrow> string option \<Rightarrow> string option
     \<Rightarrow> refresh_result async" where
  "step0 P httpOpts oauthUrl refreshToken clientId clientSecret =
     try_catch
       (await (requestWithRetry P (post_init (step0_url oauthUrl refreshToken clientId clientSecret)) httpOpts)
          (\<lambda>response.
        await (response_json response) (\<lambda>body.
        resolve (RefreshOk (map_of body ''access_token'') (map_of body ''refresh_token'')))))
       (\<lambda>error. resolve (RefreshFailed (response_status error) (message error)))"

subsection \<open>step1 (authorize)\<close>

definition step1_url :: "string option \<Rightarrow> string option \<Rightarrow> string \<Rightarrow> string \<Rightarrow> string" where
  "step1_url oauthUrl clientId username password =
     tpl oauthUrl @ ''/authorize?client_id='' @ tpl clientId
       @ ''&response_type=code&action=Login&username='' @ encodeURIComponent username
       @ ''&password='' @ encodeURIComponent password"

definition step1_init :: "string \<Rightarrow> request" where
  "step1_init urlStr =
     \<lparr> url = urlStr, init_method = GET, init_redirect_manual = True,
       init_headers = [(''Content-Type'', ''application/x-www-form-urlencoded'')] \<rparr>"

text \<open>
  \<open>url.parse\<close> throws a \<open>TypeError\<close> when its argument is not a string, which is the case
  when the response has no \<open>Location\<close> header. The result is \<open>tmpAuthCode\<close>.
\<close>

definition step1 ::
  "platform \<Rightarrow> http_options \<Rightarrow> string option \<Rightarrow> string option \<Rightarrow> string \<Rightarrow> string
     \<Rightarrow> string option async" where
  "step1 P httpOpts oauthUrl clientId username password =
     await (requestWithRetry P (step1_init (step1_url oauthUrl clientId username password)) httpOpts)
       (\<lambda>response.
     (case headers_get response ''location'' of
        None \<Rightarrow> throw (TypeError ''The url argument must be of type string. Received null'')
      | Some location \<Rightarrow> resolve (qs_parse_code (url_parse_query location))))"

subsection \<open>step2 (code exchange)\<close>

definition step2_url :: "string option \<Rightarrow> string option \<Rightarrow> string option \<Rightarrow> string option \<Rightarrow> string" where
  "step2_url oauthUrl clientId clientSecret tmpAuthCode =
     tpl oauthUrl @ ''/token?grant_type=authorization_code&client_id='' @ tpl clientId
       @ ''&client_secret='' @ tpl clientSecret @ ''&code='' @ tpl tmpAuthCode"

text \<open>The result is the pair \<^verbatim>\<open>{ accessToken, refreshToken }\<close>.\<close>

definition step2 ::
  "platform \<Rightarrow> http_options \<Rightarrow> string option \<Rightarrow> string option \<Rightarrow> string option \<Rightarrow> string option
     \<Rightarrow> (string option \<times> string option) async" where
  "step2 P httpOpts oauthUrl clientId clientSecret tmpAuthCode =
     await (requestWithRetry P (post_init (step2_url oauthUrl clientId clientSecret tmpAuthCode)) httpOpts)
       (\<lambda>response.
     await (response_json response) (\<lambda>body.
     resolve (map_of body ''access_token'', map_of body ''refresh_token'')))"

subsection \<open>step3 (REST login)\<close>

definition step3_ttl :: "platform \<Rightarrow> jsnum \<Rightarrow> jsnum" where
  "step3_ttl P ttlDays =
     (case ttlDays of
        Finite r \<Rightarrow> Finite r
      | _ \<Rightarrow> (if truthy (process_env P ''BULLHORN_TTL'')
              then Number_of_string P (tpl (process_env P ''BULLHORN_TTL''))
              else Finite 30))"

definition step3_url :: "platform \<Rightarrow> string option \<Rightarrow> string option \<Rightarrow> jsnum \<Rightarrow> string" where
  "step3_url P restUrl accessToken ttlDays =
     tpl restUrl @ ''/login?version=*&access_token='' @ tpl accessToken
       @ ''&ttl='' @ String_of_number P (step3_ttl P ttlDays)"

text \<open>The result is the pair \<^verbatim>\<open>{ restUrl, restToken }\<close> read from the response body.\<close>

definition step3 ::
  "platform \<Rightarrow> http_options \<Rightarrow> string option \<Rightarrow> string option \<Rightarrow> jsnum
     \<Rightarrow> (string option \<times> string option) async" where
  "step3 P httpOpts restUrl accessToken ttlDays =
     await (requestWithRetry P (post_init (step3_url P restUrl accessToken ttlDays)) httpOpts)
       (\<lambda>response.
     await (response_json response) (\<lambda>body.
     resolve (map_of body ''restUrl'', map_of body ''BhRestToken'')))"

subsection \<open>ping\<close>

definition ping_init :: "string \<Rightarrow> string \<Rightarrow> request" where
  "ping_init restUrl restToken =
     \<lparr> url = restUrl @ ''/ping'', init_method = GET, init_redirect_manual = False,
       init_headers = [(''BhRestToken'', restToken)] \<rparr>"

text \<open>
  \<^verbatim>\<open>{ ok: true, minRemaining }\<close> or \<^verbatim>\<open>{ ok: false, status, error }\<close>. The value
  \<open>minRemaining ?? log.headers[...]\<close> is the header read twice, so it is the header.
\<close>

datatype ping_result =
    PingOk "string option"
  | PingFailed "nat option" string

definition ping :: "platform \<Rightarrow> http_options \<Rightarrow> string \<Rightarrow> string \<Rightarrow> ping_result async" where
  "ping P httpOpts restUrl restToken =
     try_catch
       (await (requestWithRetry P (ping_init restUrl restToken) httpOpts) (\<lambda>response.
        resolve (PingOk (case headers_get response ''x-ratelimit-remaining-minute'' of
                           None \<Rightarrow> headers_get response ''x-ratelimit-remaining-minute''
                         | Some m \<Rightarrow> Some m))))
       (\<lambda>error. resolve (PingFailed (response_status error) (message error)))"

section \<open>Environment helpers\<close>

record credentials =
  cred_clientId :: "string option"
  cred_clientSecret :: "string option"
  cred_username :: "string option"
  cred_password :: "string option"

record tokens =
  tok_restUrl :: "string option"
  tok_restToken :: "string option"
  tok_refreshToken :: "string option"
  tok_accessToken :: "string option"

text \<open>\<open>None\<close> is the \<open>null\<close> result.\<close>

definition credentialsFromEnv :: "(string \<Rightarrow> string option) \<Rightarrow> credentials option" where
  "credentialsFromEnv env =
     (let clientId = env ''BH_CLIENT_ID'';
          clientSecret = env ''BH_CLIENT_SECRET'';
          username = env ''BH_USERNAME'';
          password = env ''BH_PASSWORD''
      in if truthy clientId \<and> truthy clientSecret \<and> truthy username \<and> truthy password
         then Some \<lparr> cred_clientId = clientId, cred_clientSecret = clientSecret,
                     cred_username = username, cred_password = password \<rparr>
         else None)"

text \<open>
  The result object as the list of its own properties, in order; a property whose value
  is \<open>None\<close> would be a key holding \<open>undefined\<close>. The \<open>forEach\<close> deletes exactly those.
\<close>

definition tokensFromEnv :: "(string \<Rightarrow> string option) \<Rightarrow> (string \<times> string option) list" where
  "tokensFromEnv env =
     filter (\<lambda>(k, v). v \<noteq> None)
       [(''restUrl'', env ''BH_REST_URL''),
        (''restToken'', env ''BH_REST_TOKEN''),
        (''refreshToken'', env ''BH_REFRESH_TOKEN''),
        (''accessToken'', env ''BH_ACCESS_TOKEN'')]"

section \<open>loginToBullhorn\<close>



datatype auth_method = Existing | Refresh | Full | Access

record auth_result =
  res_restUrl :: "string option"
  res_restToken :: "string option"
  res_refreshToken :: "string option"
  res_accessToken :: "string option"
  res_minRemaining :: "string option"
  res_method :: auth_method






definition insufficient_input :: error where
  "insufficient_input =
     Error ''Insufficient input: provide either (restUrl+restToken) or (refreshToken+client creds) or full credentials'' None"




text \<open>\<open>creds?.field\<close>\<close>

definition opt_field :: "(credentials \<Rightarrow> string option) \<Rightarrow> credentials option \<Rightarrow> string option" where
  "opt_field f creds = (case creds of None \<Rightarrow> None | Some c \<Rightarrow> f c)"

text \<open>The last part of the function: the check for full credentials and the full login.\<close>

definition full_login ::
  "platform \<Rightarrow> http_options \<Rightarrow> jsnum \<Rightarrow> credentials option \<Rightarrow> auth_result async" where
  "full_login P httpOpts ttlDays creds =
     (case creds of
        None \<Rightarrow> throw insufficient_input
      | Some c \<Rightarrow>
          if \<not> truthy (cred_clientId c) \<or> \<not> truthy (cred_clientSecret c)
             \<or> \<not> truthy (cred_username c) \<or> \<not> truthy (cred_password c)
          then throw insufficient_input
          else
            await (loginInfo P httpOpts (cred_username c)) (\<lambda>(oauthUrl, restUrl).
            await (step1 P httpOpts oauthUrl (cred_clientId c) (tpl (cred_username c)) (tpl (cred_password c)))
              (\<lambda>tmpAuthCode.
            await (step2 P httpOpts oauthUrl (cred_clientId c) (cred_clientSecret c) tmpAuthCode)
              (\<lambda>(s2_accessToken, s2_refreshToken).
            await (step3 P httpOpts restUrl s2_accessToken ttlDays) (\<lambda>(s3_restUrl, s3_restToken).
            resolve \<lparr> res_restUrl = s3_restUrl, res_restToken = s3_restToken,
                      res_refreshToken = s2_refreshToken, res_accessToken = s2_accessToken,
                      res_minRemaining = None, res_method = Full \<rparr>)))))"

text \<open>
  The REST base URL of the access-token shortcut: the caller's \<open>restUrl\<close>, or the one
  \<open>loginInfo\<close> reports for \<open>creds.username\<close>.
\<close>

definition access_restUrl ::
  "platform \<Rightarrow> http_options \<Rightarrow> tokens \<Rightarrow> credentials option \<Rightarrow> string option async" where
  "access_restUrl P httpOpts tokens creds =
     (if \<not> truthy (tok_restUrl tokens) \<and> truthy (opt_field cred_username creds)
      then await (loginInfo P httpOpts (opt_field cred_username creds))
             (\<lambda>(info_oauthUrl, info_restUrl). resolve info_restUrl)
      else resolve (tok_restUrl tokens))"

definition access_error :: error where
  "access_error =
     Error ''accessToken provided but restUrl (or credentials.username to derive it) is missing'' None"

text \<open>From the access-token shortcut on.\<close>

definition access_token_path ::
  "platform \<Rightarrow> http_options \<Rightarrow> jsnum \<Rightarrow> tokens \<Rightarrow> credentials option \<Rightarrow> auth_result async" where
  "access_token_path P httpOpts ttlDays tokens creds =
     (if truthy (tok_accessToken tokens) then
        await (access_restUrl P httpOpts tokens creds) (\<lambda>restUrl.
        if \<not> truthy restUrl then throw access_error
        else
          await (step3 P httpOpts restUrl (tok_accessToken tokens) ttlDays)
            (\<lambda>(s3_restUrl, s3_restToken).
          resolve \<lparr> res_restUrl = s3_restUrl, res_restToken = s3_restToken,
                    res_refreshToken = tok_refreshToken tokens,
                    res_accessToken = tok_accessToken tokens,
                    res_minRemaining = None, res_method = Access \<rparr>))
      else full_login P httpOpts ttlDays creds)"






section \<open>A scripted platform for concrete runs\<close>

text \<open>
  Stand-ins for the two conversions of the language. They agree with \<open>Number(string)\<close> on
  strings of decimal digits and on words without digits, and with \<open>String(number)\<close> on
  integers, which is all the concrete runs below use.
\<close>

definition decimal_Number :: "string \<Rightarrow> jsnum" where
  "decimal_Number s = (if list_all is_digit s then Finite (of_int (digits_value s)) else NaN)"

definition decimal_String :: "jsnum \<Rightarrow> string" where
  "decimal_String n =
     (case n of
        Finite r \<Rightarrow> (if r < 0 then ''-'' else []) @ dec (nat \<lfloor>\<bar>r\<bar>\<rfloor>)
      | NaN \<Rightarrow> ''NaN''
      | PosInf \<Rightarrow> ''Infinity''
      | NegInf \<Rightarrow> ''-Infinity'')"

text \<open>
  A transport that answers the \<open>i\<close>-th request with the \<open>i\<close>-th outcome of a script and
  repeats the last one afterwards (the test suite's \<open>setupFetchSequence\<close>); the
  environment has no variables set.
\<close>

definition scripted :: "fetch_outcome list \<Rightarrow> platform" where
  "scripted outcomes =
     \<lparr> fetch = (\<lambda>i req. if i < length outcomes then outcomes ! i else last outcomes),
       process_env = (\<lambda>name. None),
       Number_of_string = decimal_Number,
       String_of_number = decimal_String \<rparr>"




section \<open>Auxiliary notions for the retry loop\<close>

text \<open>What the \<open>try\<close> block of \<open>requestWithRetry\<close> makes of the outcome of one \<open>fetch\<close>.\<close>

definition outcome_result :: "fetch_outcome \<Rightarrow> error + response" where
  "outcome_result out =
     (case out of
        Rejected e \<Rightarrow> Inl e
      | Responded res \<Rightarrow>
          if status res \<ge> 500 \<or> status res = 429
          then Inl (Error (''HTTP '' @ dec (status res)) (Some res))
          else Inr res)"

text \<open>The events of the observer call for a failed attempt (none without an observer).\<close>

definition observer_events :: "http_options \<Rightarrow> nat \<Rightarrow> error \<Rightarrow> event list" where
  "observer_events httpOpts n err =
     (case onRetryAttempt httpOpts of
        None \<Rightarrow> []
      | Some cb \<Rightarrow> [OnRetryAttempt \<lparr> info_attempt = n, info_status = response_status err,
                                      info_error = message err \<rparr>])"


text \<open>The observer calls of a trace, in order.\<close>

fun observer_calls :: "event list \<Rightarrow> retry_info list" where
  "observer_calls [] = []"
| "observer_calls (OnRetryAttempt i # tr) = i # observer_calls tr"
| "observer_calls (e # tr) = observer_calls tr"


section \<open>Auxiliary notions for the paths\<close>

text \<open>A computation only appends to the trace.\<close>

definition extends_trace :: "'a async \<Rightarrow> bool" where
  "extends_trace m = (\<forall>tr. prefix tr (snd (m tr)))"

section \<open>Inputs of the concrete runs\<close>



text \<open>An environment in which all four credential keys are set, the password to the empty string.\<close>

definition env_empty_password :: "string \<Rightarrow> string option" where
  "env_empty_password =
     map_of [(''BH_CLIENT_ID'', ''id''), (''BH_CLIENT_SECRET'', ''sec''), (''BH_USERNAME'', ''u''),
             (''BH_PASSWORD'', []), (''BH_REST_URL'', [])]"

section \<open>Properties of the retrying transport\<close>

declare dec.simps [simp del]

lemma fetch_count_append [simp]: "fetch_count (xs @ ys) = fetch_count xs + fetch_count ys"
  by (simp add: fetch_count_def)

lemma fetch_count_Cons [simp]:
  "fetch_count (e # tr) = (if is_fetch e then Suc (fetch_count tr) else fetch_count tr)"
  by (simp add: fetch_count_def)

lemma fetch_count_Nil [simp]: "fetch_count [] = 0"
  by (simp add: fetch_count_def)

lemma attempt_once_eq:
  "attempt_once P req tr = (outcome_result (fetch P (fetch_count tr) req), tr @ [Fetch req])"
  by (simp add: attempt_once_def doFetch_def await_def outcome_result_def throw_def resolve_def
      split: fetch_outcome.splits)

lemma call_observer_eq: "call_observer cb info tr = (Inr (), tr @ [OnRetryAttempt info])"
  by (simp add: call_observer_def try_catch_def resolve_def split: option.splits)

lemma observer_step:
  "(case onRetryAttempt httpOpts of
      None \<Rightarrow> resolve ()
    | Some cb \<Rightarrow> call_observer cb \<lparr> info_attempt = n, info_status = response_status err,
                                      info_error = message err \<rparr>) tr
   = (Inr (), tr @ observer_events httpOpts n err)"
  by (simp add: observer_events_def call_observer_eq resolve_def split: option.splits)

declare requestWithRetry_loop.simps [simp del]

lemma le_nat_floor_rat: "rat_of_nat a \<le> r \<Longrightarrow> a \<le> nat \<lfloor>r\<rfloor>"
proof -
  assume "rat_of_nat a \<le> r"
  then have "int a \<le> \<lfloor>r\<rfloor>" by (simp add: le_floor_iff)
  then show ?thesis by linarith
qed

lemma loop_unfold:
  "requestWithRetry_loop P req httpOpts a le tr =
     (if of_nat a \<le> retries httpOpts then
        (case outcome_result (fetch P (fetch_count tr) req) of
           Inr res \<Rightarrow> (Inr res, tr @ [Fetch req])
         | Inl err \<Rightarrow>
             if of_nat (Suc a) > retries httpOpts then (Inl err, tr @ [Fetch req])
             else requestWithRetry_loop P req httpOpts (Suc a) (Some err)
                    (tr @ Fetch req # observer_events httpOpts (Suc a) err @ [Delay (backoffMs (Suc a))]))
      else (Inl (case le of Some e \<Rightarrow> e | None \<Rightarrow> ThrownUndefined), tr))"
  by (subst requestWithRetry_loop.simps)
    (simp add: attempt_once_eq observer_step sleep_def split: sum.splits)




text \<open>Whatever the transport does, the loop only appends, and only requests for \<open>req\<close>.\<close>

lemma loop_trace:
  "\<exists>evs. snd (requestWithRetry_loop P req httpOpts a le tr) = tr @ evs
     \<and> (\<forall>r. Fetch r \<in> set evs \<longrightarrow> r = req)
     \<and> fetch_count evs \<le> nat \<lfloor>retries httpOpts\<rfloor> + 1 - a
     \<and> (of_nat a \<le> retries httpOpts \<longrightarrow> evs \<noteq> [] \<and> hd evs = Fetch req)"
proof (induction P req httpOpts a le tr rule: requestWithRetry_loop.induct)
  case (1 P req httpOpts a le tr)
  show ?case
  proof (cases "of_nat a \<le> retries httpOpts")
    case False
    then show ?thesis by (subst loop_unfold) simp
  next
    case run: True
    then have a_le: "a \<le> nat \<lfloor>retries httpOpts\<rfloor>" by (rule le_nat_floor_rat)
    show ?thesis
    proof (cases "outcome_result (fetch P (fetch_count tr) req)")
      case (Inr res)
      with run a_le show ?thesis by (subst loop_unfold) simp
    next
      case (Inl err)
      show ?thesis
      proof (cases "of_nat (Suc a) > retries httpOpts")
        case True
        with run Inl a_le show ?thesis by (subst loop_unfold) (simp del: of_nat_Suc)
      next
        case False
        let ?tr' = "tr @ Fetch req # observer_events httpOpts (Suc a) err @ [Delay (backoffMs (Suc a))]"
        have ao: "attempt_once P req tr = (Inl err, tr @ [Fetch req])"
          by (simp add: attempt_once_eq Inl)
        have ob: "(case onRetryAttempt httpOpts of
                     None \<Rightarrow> resolve ()
                   | Some cb \<Rightarrow> call_observer cb \<lparr> info_attempt = a + 1, info_status = response_status err,
                        info_error = message err \<rparr>) (tr @ [Fetch req])
                  = (Inr (), (tr @ [Fetch req]) @ observer_events httpOpts (a + 1) err)"
          by (rule observer_step)
        have sl: "sleep (backoffMs (a + 1)) ((tr @ [Fetch req]) @ observer_events httpOpts (a + 1) err)
                  = (Inr (), ((tr @ [Fetch req]) @ observer_events httpOpts (a + 1) err) @ [Delay (backoffMs (a + 1))])"
          by (simp add: sleep_def)
        from False have nf: "\<not> retries httpOpts < rat_of_nat (a + 1)" by simp
        have "\<exists>evs. snd (requestWithRetry_loop P req httpOpts (a + 1) (Some err)
                 (((tr @ [Fetch req]) @ observer_events httpOpts (a + 1) err) @ [Delay (backoffMs (a + 1))]))
               = (((tr @ [Fetch req]) @ observer_events httpOpts (a + 1) err) @ [Delay (backoffMs (a + 1))]) @ evs
             \<and> (\<forall>r. Fetch r \<in> set evs \<longrightarrow> r = req)
             \<and> fetch_count evs \<le> nat \<lfloor>retries httpOpts\<rfloor> + 1 - (a + 1)
             \<and> (of_nat (a + 1) \<le> retries httpOpts \<longrightarrow> evs \<noteq> [] \<and> hd evs = Fetch req)"
          by (rule "1.IH"[OF run ao[symmetric] refl nf ob[symmetric] refl sl[symmetric] refl])
        then obtain evs where evs: "snd (requestWithRetry_loop P req httpOpts (Suc a) (Some err) ?tr') = ?tr' @ evs"
           "\<forall>r. Fetch r \<in> set evs \<longrightarrow> r = req"
           "fetch_count evs \<le> nat \<lfloor>retries httpOpts\<rfloor> + 1 - (a + 1)"
          by auto
        have step: "requestWithRetry_loop P req httpOpts a le tr
            = requestWithRetry_loop P req httpOpts (Suc a) (Some err) ?tr'"
          by (subst loop_unfold) (simp add: Inl run False del: of_nat_Suc)
        have "snd (requestWithRetry_loop P req httpOpts a le tr)
            = tr @ (Fetch req # observer_events httpOpts (Suc a) err @ [Delay (backoffMs (Suc a))] @ evs)"
          using step evs(1) by simp
        moreover have "\<forall>r. Fetch r \<in> set (Fetch req # observer_events httpOpts (Suc a) err @ [Delay (backoffMs (Suc a))] @ evs) \<longrightarrow> r = req"
          using evs(2) by (auto simp: observer_events_def split: option.splits)
        moreover have "fetch_count (Fetch req # observer_events httpOpts (Suc a) err @ [Delay (backoffMs (Suc a))] @ evs)
             \<le> nat \<lfloor>retries httpOpts\<rfloor> + 1 - a"
        proof -
          have "fetch_count (observer_events httpOpts (Suc a) err) = 0"
            by (simp add: observer_events_def split: option.splits)
          then show ?thesis using evs(3) a_le by simp
        qed
        ultimately show ?thesis by (intro exI[of _ "Fetch req # observer_events httpOpts (Suc a) err @ [Delay (backoffMs (Suc a))] @ evs"]) simp
      qed
    qed
  qed
qed


lemma observer_calls_append [simp]:
  "observer_calls (xs @ ys) = observer_calls xs @ observer_calls ys"
  by (induction xs rule: observer_calls.induct) simp_all












section \<open>Properties of the login paths\<close>



lemmas url_simps =
  loginInfo_url_def step0_url_def step1_url_def step2_url_def step3_url_def step3_ttl_def
  encodeURIComponent_def uri_unreserved_def hex_digit_def decimal_String_def decimal_Number_def
  ping_init_def step1_init_def url_parse_query_def qs_parse_code_def hex_value_def intercalate_def



lemma extends_resolve [intro!, simp]: "extends_trace (resolve x)"
  by (simp add: extends_trace_def resolve_def)

lemma extends_throw [intro!, simp]: "extends_trace (throw e)"
  by (simp add: extends_trace_def throw_def)

lemma extends_await [intro!]:
  "extends_trace m \<Longrightarrow> (\<And>x. extends_trace (f x)) \<Longrightarrow> extends_trace (await m f)"
  unfolding extends_trace_def await_def
  by (auto split: prod.splits sum.splits) (metis prefix_order.order_trans snd_conv)+

lemma extends_try_catch [intro!]:
  "extends_trace m \<Longrightarrow> (\<And>e. extends_trace (h e)) \<Longrightarrow> extends_trace (try_catch m h)"
  unfolding extends_trace_def try_catch_def
  by (auto split: prod.splits sum.splits) (metis prefix_order.order_trans snd_conv)+

lemma extends_case_prod [intro!]:
  "(\<And>a b. extends_trace (f a b)) \<Longrightarrow> extends_trace (case p of (a, b) \<Rightarrow> f a b)"
  by (cases p) simp

lemma extends_if [intro!]:
  "(c \<Longrightarrow> extends_trace a) \<Longrightarrow> (\<not> c \<Longrightarrow> extends_trace b) \<Longrightarrow> extends_trace (if c then a else b)"
  by simp

lemma extends_requestWithRetry [intro!, simp]: "extends_trace (requestWithRetry P req httpOpts)"
  unfolding extends_trace_def requestWithRetry_def
  using loop_trace[of P req httpOpts 0 None] by (metis prefixI)

lemma extends_response_json [intro!, simp]: "extends_trace (response_json res)"
  by (simp add: response_json_def split: option.splits)

lemma extends_loginInfo [intro!, simp]: "extends_trace (loginInfo P httpOpts username)"
  unfolding loginInfo_def by (auto split: option.splits)

lemma extends_step0 [intro!, simp]: "extends_trace (step0 P httpOpts a b c d)"
  unfolding step0_def by auto

lemma extends_step1 [intro!, simp]: "extends_trace (step1 P httpOpts a b c d)"
  unfolding step1_def by (auto split: option.splits)

lemma extends_step2 [intro!, simp]: "extends_trace (step2 P httpOpts a b c d)"
  unfolding step2_def by auto

lemma extends_step3 [intro!, simp]: "extends_trace (step3 P httpOpts a b c)"
  unfolding step3_def by auto

lemma extends_ping [intro!, simp]: "extends_trace (ping P httpOpts a b)"
  unfolding ping_def by auto

lemma extends_full_login [intro!, simp]: "extends_trace (full_login P httpOpts ttlDays creds)"
  unfolding full_login_def by (auto split: option.splits)

lemma extends_access_restUrl [intro!, simp]: "extends_trace (access_restUrl P httpOpts tokens creds)"
  unfolding access_restUrl_def by auto

lemma extends_access_token_path [intro!, simp]:
  "extends_trace (access_token_path P httpOpts ttlDays tokens creds)"
  unfolding access_token_path_def by auto





























section \<open>Input validation\<close>






section \<open>Request targets and the authorize step\<close>

text \<open>
  Claim C4 does not hold of the code: only the user name and the password are passed
  through \<open>encodeURIComponent\<close>. A refresh token \<open>r&x=1\<close> enters the \<open>step0\<close> target as it
  is, an access token \<open>29:c4ce\<close> enters the \<open>step3\<close> target as it is, and a client id
  with a space enters the \<open>step1\<close> target as it is, next to the encoded user name and
  password.
\<close>

theorem tokens_not_percent_encoded:
  "step0_url (Some ''https://oauth'') (Some ''r&x=1'') (Some ''id'') (Some ''sec'')
     = ''https://oauth/token?grant_type=refresh_token&refresh_token=r&x=1&client_id=id&client_secret=sec''
   \<and> encodeURIComponent ''r&x=1'' = ''r%26x%3D1''
   \<and> step3_url (scripted []) (Some ''https://rest'') (Some ''29:c4ce'') (Finite 30)
     = ''https://rest/login?version=*&access_token=29:c4ce&ttl=30''
   \<and> encodeURIComponent ''29:c4ce'' = ''29%3Ac4ce''
   \<and> step1_url (Some ''https://oauth'') (Some ''a b'') ''u:1'' ''p&q''
     = ''https://oauth/authorize?client_id=a b&response_type=code&action=Login&username=u%3A1&password=p%26q''"
  by (simp add: url_simps scripted_def dec.simps digit_char_def)




section \<open>Environment extraction\<close>

text \<open>
  Claim C9, as amended. \<open>credentialsFromEnv\<close> returns the credentials exactly when all
  four keys are set to non-empty values, and \<open>null\<close> otherwise (a key set to the empty
  string counts as missing). \<open>tokensFromEnv\<close> returns exactly the token keys that are
  set, in order, each with its value (a key set to the empty string is kept, with the
  empty string); a key that is not set is not in the result.
\<close>

theorem env_extraction:
  "credentialsFromEnv env =
     (if (\<exists>v. env ''BH_CLIENT_ID'' = Some v \<and> v \<noteq> []) \<and> (\<exists>v. env ''BH_CLIENT_SECRET'' = Some v \<and> v \<noteq> [])
         \<and> (\<exists>v. env ''BH_USERNAME'' = Some v \<and> v \<noteq> []) \<and> (\<exists>v. env ''BH_PASSWORD'' = Some v \<and> v \<noteq> [])
      then Some \<lparr> cred_clientId = env ''BH_CLIENT_ID'', cred_clientSecret = env ''BH_CLIENT_SECRET'',
                  cred_username = env ''BH_USERNAME'', cred_password = env ''BH_PASSWORD'' \<rparr>
      else None)
   \<and> tokensFromEnv env =
       (case env ''BH_REST_URL'' of None \<Rightarrow> [] | Some v \<Rightarrow> [(''restUrl'', Some v)])
       @ (case env ''BH_REST_TOKEN'' of None \<Rightarrow> [] | Some v \<Rightarrow> [(''restToken'', Some v)])
       @ (case env ''BH_REFRESH_TOKEN'' of None \<Rightarrow> [] | Some v \<Rightarrow> [(''refreshToken'', Some v)])
       @ (case env ''BH_ACCESS_TOKEN'' of None \<Rightarrow> [] | Some v \<Rightarrow> [(''accessToken'', Some v)])"
proof -
  have t: "truthy x = (\<exists>v. x = Some v \<and> v \<noteq> [])" for x
    by (cases x) simp_all
  show ?thesis
    by (simp add: credentialsFromEnv_def tokensFromEnv_def Let_def t split: option.splits)
qed

text \<open>
  Claim C9 at an environment whose password and REST URL are set to the empty string.
\<close>

theorem env_extraction_witness:
  "credentialsFromEnv env_empty_password = None
   \<and> tokensFromEnv env_empty_password = [(''restUrl'', Some [])]"
  using env_extraction[of env_empty_password]
  by (simp add: env_empty_password_def)

text \<open>
  Claim C9 as stated fails: all four credential keys are present, and the result is
  \<open>null\<close>.
\<close>

theorem empty_password_counterexample:
  "env_empty_password ''BH_CLIENT_ID'' \<noteq> None \<and> env_empty_password ''BH_CLIENT_SECRET'' \<noteq> None
   \<and> env_empty_password ''BH_USERNAME'' \<noteq> None \<and> env_empty_password ''BH_PASSWORD'' \<noteq> None
   \<and> credentialsFromEnv env_empty_password = None"
  by (simp add: env_empty_password_def credentialsFromEnv_def)

end
